theory Spec2Isabelle
  imports Main
begin

section \<open>Data model of RenderState.cpp\<close>

text \<open>
  \<^verbatim>\<open>Vector2i\<close> is a pair of C++ \<^verbatim>\<open>int\<close>s. The file only copies and compares
  them (no arithmetic), so the components are modelled as \<open>int\<close>.
\<close>

datatype Vector2i = Vector2i (vx: int) (vy: int)

text \<open>
  Pointers are addresses. \<^verbatim>\<open>Element*\<close> in a clip list is dereferenced without a
  check, so it is an address; a nullable pointer is an \<open>option\<close>, \<open>None\<close> being
  \<^verbatim>\<open>nullptr\<close>.
\<close>

type_synonym Element = nat
type_synonym TransformState = nat
type_synonym Matrix4f_ptr = "nat option"

text \<open>
  Modelled from the spec: the enum \<^verbatim>\<open>Box::Area\<close> (declared in Box.h) names the areas of
  a box; this file only stores, compares and passes on its values.
\<close>

datatype Area = MARGIN | BORDER | PADDING | CONTENT

text \<open>
  \<^verbatim>\<open>ElementClip\<close>: an element and the box area it clips to; two are equal when both
  fields are.
\<close>

record ElementClip =
  clip_area :: Area
  element :: Element

type_synonym ElementClipList = "ElementClip list"

datatype ClipMask = Clip | ClipIntersect

text \<open>
  \<^verbatim>\<open>RenderState::State\<close>. The matrix type \<^verbatim>\<open>Matrix4f\<close> (sixteen floats) is the type
  parameter \<open>'m\<close>; its comparison \<^verbatim>\<open>operator!=\<close> is a parameter of the environment below.
\<close>

record 'm State =
  scissor_origin :: Vector2i
  scissor_dimensions :: Vector2i
  clip_stencil_elements :: ElementClipList
  transform :: 'm
  transform_pointer :: Matrix4f_ptr

text \<open>
  The calls that reach the rendering backend. \<open>Geometry_SetClipMask m e a\<close> is
  \<^verbatim>\<open>geometry.SetClipMask(m, offset)\<close> for the geometry generated from the box and
  border radius of element \<open>e\<close> with clip area \<open>a\<close>, at the absolute border offset
  of \<open>e\<close>.
\<close>

datatype RenderInterface_call =
    RI_EnableScissorRegion bool
  | RI_SetScissorRegion int int int int
  | RI_EnableClipMask bool
  | RI_SetTransform Matrix4f_ptr
  | Geometry_SetClipMask ClipMask Element Area

text \<open>
  Modelled from the spec: the macros \<^verbatim>\<open>RMLUI_ASSERT\<close>, \<^verbatim>\<open>RMLUI_ASSERTMSG\<close> and
  \<^verbatim>\<open>RMLUI_ERRORMSG\<close> (Debug.h) raise a programmer-facing error and do not unwind:
  the statements after them run. The model appends the error to a log.
\<close>

datatype error =
    Assert_unbalanced_push_pop_detected
  | Assert_dimensions_nonnegative
  | Error_unbalanced_push_pop

text \<open>
  The object: the stack (\<^verbatim>\<open>stack.back()\<close> is the last element of the list), the
  capability flag, the trace of calls made through \<^verbatim>\<open>render_interface\<close>, and the
  errors raised.
\<close>

record 'm RenderState =
  stack :: "'m State list"
  supports_stencil :: bool
  calls :: "RenderInterface_call list"
  errors :: "error list"

text \<open>
  What the file reads from its collaborators: the transform state of an element and its
  matrix pointer, the matrix stored at an address, \<^verbatim>\<open>Matrix4f::operator!=\<close>, the value
  returned by the backend's \<^verbatim>\<open>EnableClipMask\<close>, and the value of \<^verbatim>\<open>State{}\<close>
  (the struct's default member initialisers are in RenderState.h).
\<close>

record 'm Env =
  GetTransformState :: "Element \<Rightarrow> TransformState option"
  GetTransform :: "TransformState \<Rightarrow> Matrix4f_ptr"
  deref :: "nat \<Rightarrow> 'm"
  matrix_ne :: "'m \<Rightarrow> 'm \<Rightarrow> bool"
  EnableClipMask_result :: "bool \<Rightarrow> bool"
  State_init :: "'m State"

section \<open>Operations\<close>

definition stack_back :: "'m RenderState \<Rightarrow> 'm State" where
  "stack_back rs = last (stack rs)"

definition set_stack_back :: "'m State \<Rightarrow> 'm RenderState \<Rightarrow> 'm RenderState" where
  "set_stack_back st rs = rs\<lparr>stack := (stack rs)[length (stack rs) - 1 := st]\<rparr>"

definition call :: "RenderInterface_call \<Rightarrow> 'm RenderState \<Rightarrow> 'm RenderState" where
  "call c rs = rs\<lparr>calls := calls rs @ [c]\<rparr>"

definition raise :: "error \<Rightarrow> 'm RenderState \<Rightarrow> 'm RenderState" where
  "raise e rs = rs\<lparr>errors := errors rs @ [e]\<rparr>"

text \<open>
  The constructor: \<^verbatim>\<open>stack(1)\<close> holds one \<^verbatim>\<open>State{}\<close>. The initial value of
  \<^verbatim>\<open>supports_stencil\<close> is set in RenderState.h and is the parameter \<open>b\<close>.
\<close>

definition RenderState_new :: "'m Env \<Rightarrow> bool \<Rightarrow> 'm RenderState" where
  "RenderState_new env b =
     \<lparr>stack = [State_init env], supports_stencil = b, calls = [], errors = []\<rparr>"

definition BeginRender :: "'m Env \<Rightarrow> 'm RenderState \<Rightarrow> 'm RenderState" where
  "BeginRender env rs =
     (let rs1 = (if length (stack rs) = 1 then rs
                 else raise Assert_unbalanced_push_pop_detected rs);
          rs2 = call (RI_EnableScissorRegion False) rs1;
          rs3 = (call (RI_EnableClipMask False) rs2)
                  \<lparr>supports_stencil := EnableClipMask_result env False\<rparr>;
          rs4 = call (RI_SetTransform None) rs3
      in set_stack_back (State_init env) rs4)"

definition DisableScissorRegion :: "'m RenderState \<Rightarrow> 'm RenderState" where
  "DisableScissorRegion rs =
     (let state = stack_back rs;
          scissor_enabled = (0 \<le> vx (scissor_dimensions state))
      in if scissor_enabled
         then call (RI_EnableScissorRegion False)
                (set_stack_back (state\<lparr>scissor_dimensions := Vector2i (- 1) (- 1)\<rparr>) rs)
         else rs)"

definition EnableScissorRegion ::
  "Vector2i \<Rightarrow> Vector2i \<Rightarrow> 'm RenderState \<Rightarrow> 'm RenderState" where
  "EnableScissorRegion origin dimensions rs =
     (let rs0 = (if 0 \<le> vx dimensions \<and> 0 \<le> vy dimensions then rs
                 else raise Assert_dimensions_nonnegative rs);
          state = stack_back rs0;
          scissor_enabled = (0 \<le> vx (scissor_dimensions state));
          rs1 = (if \<not> scissor_enabled then call (RI_EnableScissorRegion True) rs0 else rs0)
      in if \<not> scissor_enabled \<or> scissor_origin state \<noteq> origin
              \<or> scissor_dimensions state \<noteq> dimensions
         then call (RI_SetScissorRegion (vx origin) (vy origin) (vx dimensions) (vy dimensions))
                (set_stack_back (state\<lparr>scissor_origin := origin,
                                 scissor_dimensions := dimensions\<rparr>) rs1)
         else rs1)"

definition SetTransform :: "'m Env \<Rightarrow> Matrix4f_ptr \<Rightarrow> 'm RenderState \<Rightarrow> 'm RenderState" where
  "SetTransform env p_new_transform rs =
     (let state = stack_back rs;
          p_active_transform = transform_pointer state
      in if p_active_transform \<noteq> p_new_transform
         then
           (let active_transform = transform state;
                submit = (case p_active_transform of
                            None \<Rightarrow> True
                          | Some _ \<Rightarrow>
                              (case p_new_transform of
                                 None \<Rightarrow> True
                               | Some a \<Rightarrow> matrix_ne env active_transform (deref env a)));
                rs1 = (if submit
                       then set_stack_back
                              (case p_new_transform of
                                 None \<Rightarrow> state
                               | Some a \<Rightarrow> state\<lparr>transform := deref env a\<rparr>)
                              (call (RI_SetTransform p_new_transform) rs)
                       else rs)
            in set_stack_back ((stack_back rs1)\<lparr>transform_pointer := p_new_transform\<rparr>) rs1)
         else rs)"

definition ApplyTransform :: "'m Env \<Rightarrow> Element option \<Rightarrow> 'm RenderState \<Rightarrow> 'm RenderState" where
  "ApplyTransform env element_ptr rs =
     (let new_transform =
            (case element_ptr of
               None \<Rightarrow> None
             | Some e \<Rightarrow>
                 (case GetTransformState env e of
                    None \<Rightarrow> None
                  | Some transform_state \<Rightarrow> GetTransform env transform_state))
      in SetTransform env new_transform rs)"

definition GetScissorState ::
  "'m RenderState \<Rightarrow> Vector2i \<times> Vector2i \<Rightarrow> bool \<times> Vector2i \<times> Vector2i" where
  "GetScissorState rs out =
     (let state = stack_back rs;
          scissor_enabled = (0 \<le> vx (scissor_dimensions state))
      in if \<not> scissor_enabled then (False, fst out, snd out)
         else (True, scissor_origin state, scissor_dimensions state))"

text \<open>The range-for loop of \<^verbatim>\<open>ApplyClipMask\<close>; the flag is \<^verbatim>\<open>first_clip_mask\<close>.\<close>

fun ApplyClipMask_loop ::
  "'m Env \<Rightarrow> ElementClipList \<Rightarrow> bool \<Rightarrow> 'm RenderState \<Rightarrow> 'm RenderState" where
  "ApplyClipMask_loop env [] first_clip_mask rs = rs"
| "ApplyClipMask_loop env (element_clip # rest) first_clip_mask rs =
     (let clip_element = element element_clip;
          rs1 = ApplyTransform env (Some clip_element) rs;
          clip_mask = (if first_clip_mask then Clip else ClipIntersect);
          rs2 = call (Geometry_SetClipMask clip_mask clip_element (clip_area element_clip)) rs1
      in ApplyClipMask_loop env rest False rs2)"

definition ApplyClipMask :: "'m Env \<Rightarrow> ElementClipList \<Rightarrow> 'm RenderState \<Rightarrow> 'm RenderState" where
  "ApplyClipMask env clip_elements rs =
     (let clip_mask_enabled = (clip_elements \<noteq> []);
          rs1 = call (RI_EnableClipMask clip_mask_enabled) rs
      in if clip_mask_enabled
         then
           (let initial_transform = transform_pointer (stack_back rs1);
                rs2 = ApplyClipMask_loop env clip_elements True rs1
            in SetTransform env initial_transform rs2)
         else rs1)"

definition SetClipMask :: "'m Env \<Rightarrow> ElementClipList \<Rightarrow> 'm RenderState \<Rightarrow> 'm RenderState" where
  "SetClipMask env in_clip_elements rs =
     (let state = stack_back rs
      in if clip_stencil_elements state \<noteq> in_clip_elements
         then
           (let rs1 = set_stack_back (state\<lparr>clip_stencil_elements := in_clip_elements\<rparr>) rs
            in ApplyClipMask env (clip_stencil_elements (stack_back rs1)) rs1)
         else rs)"

definition Set_state :: "'m Env \<Rightarrow> 'm State \<Rightarrow> 'm RenderState \<Rightarrow> 'm RenderState" where
  "Set_state env next rs =
     (let scissor_enable = (0 \<le> vx (scissor_dimensions next));
          rs1 = (if scissor_enable
                 then EnableScissorRegion (scissor_origin next) (scissor_dimensions next) rs
                 else DisableScissorRegion rs);
          rs2 = SetClipMask env (clip_stencil_elements next) rs1
      in SetTransform env (transform_pointer next) rs2)"

definition Reset :: "'m Env \<Rightarrow> 'm RenderState \<Rightarrow> 'm RenderState" where
  "Reset env rs = Set_state env (State_init env) rs"

definition Push :: "'m RenderState \<Rightarrow> 'm RenderState" where
  "Push rs = rs\<lparr>stack := stack rs @ [last (stack rs)]\<rparr>"

definition Pop :: "'m Env \<Rightarrow> 'm RenderState \<Rightarrow> 'm RenderState" where
  "Pop env rs =
     (if 2 \<le> length (stack rs)
      then
        (let next = stack rs ! (length (stack rs) - 2);
             rs1 = Set_state env next rs
         in rs1\<lparr>stack := butlast (stack rs1)\<rparr>)
      else raise Error_unbalanced_push_pop rs)"

section \<open>Sequences of calls\<close>

text \<open>
  A client's call on a \<^verbatim>\<open>RenderState\<close>: every member function of the file that
  changes the object. A sequence of calls runs each call in its own environment, since
  elements and the matrices behind the pointers may change between two calls.
\<close>

datatype 'm operation =
    Op_BeginRender
  | Op_Reset
  | Op_DisableScissorRegion
  | Op_EnableScissorRegion Vector2i Vector2i
  | Op_SetClipMask ElementClipList
  | Op_SetTransform Matrix4f_ptr
  | Op_ApplyTransform "Element option"
  | Op_ApplyClipMask ElementClipList
  | Op_Push
  | Op_Pop
  | Op_Set "'m State"

fun step :: "'m Env \<Rightarrow> 'm operation \<Rightarrow> 'm RenderState \<Rightarrow> 'm RenderState" where
  "step env Op_BeginRender rs = BeginRender env rs"
| "step env Op_Reset rs = Reset env rs"
| "step env Op_DisableScissorRegion rs = DisableScissorRegion rs"
| "step env (Op_EnableScissorRegion origin dimensions) rs =
     EnableScissorRegion origin dimensions rs"
| "step env (Op_SetClipMask clip_elements) rs = SetClipMask env clip_elements rs"
| "step env (Op_SetTransform p) rs = SetTransform env p rs"
| "step env (Op_ApplyTransform e) rs = ApplyTransform env e rs"
| "step env (Op_ApplyClipMask clip_elements) rs = ApplyClipMask env clip_elements rs"
| "step env Op_Push rs = Push rs"
| "step env Op_Pop rs = Pop env rs"
| "step env (Op_Set next) rs = Set_state env next rs"

fun run :: "('m Env \<times> 'm operation) list \<Rightarrow> 'm RenderState \<Rightarrow> 'm RenderState" where
  "run [] rs = rs"
| "run ((env, op) # ops) rs = run ops (step env op rs)"

text \<open>The backend calls made between an earlier and a later state of the object.\<close>

definition issued :: "'m RenderState \<Rightarrow> 'm RenderState \<Rightarrow> RenderInterface_call list" where
  "issued rs rs' = drop (length (calls rs)) (calls rs')"

fun is_geometry :: "RenderInterface_call \<Rightarrow> bool" where
  "is_geometry (Geometry_SetClipMask m e a) = True"
| "is_geometry c = False"

fun is_SetTransform :: "RenderInterface_call \<Rightarrow> bool" where
  "is_SetTransform (RI_SetTransform p) = True"
| "is_SetTransform c = False"

fun is_SetScissorRegion :: "RenderInterface_call \<Rightarrow> bool" where
  "is_SetScissorRegion (RI_SetScissorRegion a b c d) = True"
| "is_SetScissorRegion c = False"

fun is_EnableClipMask :: "RenderInterface_call \<Rightarrow> bool" where
  "is_EnableClipMask (RI_EnableClipMask b) = True"
| "is_EnableClipMask c = False"

fun is_scissor :: "RenderInterface_call \<Rightarrow> bool" where
  "is_scissor (RI_EnableScissorRegion b) = True"
| "is_scissor (RI_SetScissorRegion a b c d) = True"
| "is_scissor c = False"

text \<open>
  Concrete inputs for the examples: matrices are numbers compared by value, the element at
  address \<open>e\<close> has the transform state \<open>e\<close>, whose matrix is at address \<open>e\<close>
  too, except element 0, which has no transform.
\<close>

definition example_State :: "nat State" where
  "example_State =
     \<lparr>scissor_origin = Vector2i (- 1) (- 1), scissor_dimensions = Vector2i (- 1) (- 1),
      clip_stencil_elements = [], transform = 0, transform_pointer = None\<rparr>"

definition example_Env :: "nat Env" where
  "example_Env =
     \<lparr>GetTransformState = (\<lambda>e. if e = 0 then None else Some e),
      GetTransform = (\<lambda>t. Some t),
      deref = (\<lambda>a. a),
      matrix_ne = (\<lambda>a b. a \<noteq> b),
      EnableClipMask_result = (\<lambda>b. True),
      State_init = example_State\<rparr>"

definition example_RenderState :: "nat RenderState" where
  "example_RenderState = RenderState_new example_Env False"

definition example_chain :: ElementClipList where
  "example_chain =
     [\<lparr>clip_area = BORDER, element = 2\<rparr>, \<lparr>clip_area = PADDING, element = 0\<rparr>,
      \<lparr>clip_area = CONTENT, element = 3\<rparr>]"

definition example_next :: "nat State" where
  "example_next =
     \<lparr>scissor_origin = Vector2i 1 2, scissor_dimensions = Vector2i 3 4,
      clip_stencil_elements = example_chain, transform = 0, transform_pointer = Some 5\<rparr>"

section \<open>The operations change the top of the stack only\<close>

lemma set_stack_back_sel [simp]:
  "calls (set_stack_back st rs) = calls rs"
  "errors (set_stack_back st rs) = errors rs"
  "supports_stencil (set_stack_back st rs) = supports_stencil rs"
  "length (stack (set_stack_back st rs)) = length (stack rs)"
  "butlast (stack (set_stack_back st rs)) = butlast (stack rs)"
  by (simp_all add: set_stack_back_def butlast_list_update)

lemma stack_back_set [simp]: "stack rs \<noteq> [] \<Longrightarrow> stack_back (set_stack_back st rs) = st"
  by (simp add: set_stack_back_def stack_back_def last_list_update)

lemma set_stack_back_Nil [simp]: "stack (set_stack_back st rs) = [] \<longleftrightarrow> stack rs = []"
  by (simp add: set_stack_back_def)

lemma call_sel [simp]:
  "stack (call c rs) = stack rs"
  "calls (call c rs) = calls rs @ [c]"
  "errors (call c rs) = errors rs"
  "supports_stencil (call c rs) = supports_stencil rs"
  "stack_back (call c rs) = stack_back rs"
  by (simp_all add: call_def stack_back_def)

lemma raise_sel [simp]:
  "stack (raise e rs) = stack rs"
  "calls (raise e rs) = calls rs"
  "errors (raise e rs) = errors rs @ [e]"
  "supports_stencil (raise e rs) = supports_stencil rs"
  "stack_back (raise e rs) = stack_back rs"
  by (simp_all add: raise_def stack_back_def)

lemma frame_BeginRender [simp]:
  "length (stack (BeginRender env rs)) = length (stack rs)"
  "butlast (stack (BeginRender env rs)) = butlast (stack rs)"
  by (simp_all add: BeginRender_def Let_def)

lemma frame_DisableScissorRegion [simp]:
  "length (stack (DisableScissorRegion rs)) = length (stack rs)"
  "butlast (stack (DisableScissorRegion rs)) = butlast (stack rs)"
  "supports_stencil (DisableScissorRegion rs) = supports_stencil rs"
  by (simp_all add: DisableScissorRegion_def Let_def)

lemma frame_EnableScissorRegion [simp]:
  "length (stack (EnableScissorRegion origin dimensions rs)) = length (stack rs)"
  "butlast (stack (EnableScissorRegion origin dimensions rs)) = butlast (stack rs)"
  "supports_stencil (EnableScissorRegion origin dimensions rs) = supports_stencil rs"
  by (simp_all add: EnableScissorRegion_def Let_def)

lemma frame_SetTransform [simp]:
  "length (stack (SetTransform env p rs)) = length (stack rs)"
  "butlast (stack (SetTransform env p rs)) = butlast (stack rs)"
  "supports_stencil (SetTransform env p rs) = supports_stencil rs"
  by (simp_all add: SetTransform_def Let_def)

lemma frame_ApplyTransform [simp]:
  "length (stack (ApplyTransform env e rs)) = length (stack rs)"
  "butlast (stack (ApplyTransform env e rs)) = butlast (stack rs)"
  "supports_stencil (ApplyTransform env e rs) = supports_stencil rs"
  by (simp_all add: ApplyTransform_def Let_def)

lemma frame_ApplyClipMask_loop [simp]:
  "length (stack (ApplyClipMask_loop env cs b rs)) = length (stack rs)"
  "butlast (stack (ApplyClipMask_loop env cs b rs)) = butlast (stack rs)"
  "supports_stencil (ApplyClipMask_loop env cs b rs) = supports_stencil rs"
  by (induction cs arbitrary: b rs; simp add: Let_def)+

lemma frame_ApplyClipMask [simp]:
  "length (stack (ApplyClipMask env cs rs)) = length (stack rs)"
  "butlast (stack (ApplyClipMask env cs rs)) = butlast (stack rs)"
  "supports_stencil (ApplyClipMask env cs rs) = supports_stencil rs"
  by (simp_all add: ApplyClipMask_def Let_def)

lemma frame_SetClipMask [simp]:
  "length (stack (SetClipMask env cs rs)) = length (stack rs)"
  "butlast (stack (SetClipMask env cs rs)) = butlast (stack rs)"
  "supports_stencil (SetClipMask env cs rs) = supports_stencil rs"
  by (simp_all add: SetClipMask_def Let_def)

lemma frame_Set_state [simp]:
  "length (stack (Set_state env next rs)) = length (stack rs)"
  "butlast (stack (Set_state env next rs)) = butlast (stack rs)"
  "supports_stencil (Set_state env next rs) = supports_stencil rs"
  by (simp_all add: Set_state_def Let_def)

lemma frame_Reset [simp]:
  "length (stack (Reset env rs)) = length (stack rs)"
  "butlast (stack (Reset env rs)) = butlast (stack rs)"
  "supports_stencil (Reset env rs) = supports_stencil rs"
  by (simp_all add: Reset_def)

text \<open>
  \<^verbatim>\<open>Pop\<close> with two or more States: \<^verbatim>\<open>Set\<close> writes to the top only and the top is
  then removed, so the States below are left as they were.
\<close>

lemma stack_Pop: "2 \<le> length (stack rs) \<Longrightarrow> stack (Pop env rs) = butlast (stack rs)"
  by (simp add: Pop_def Let_def)

lemma Pop_unbalanced: "length (stack rs) < 2 \<Longrightarrow> Pop env rs = raise Error_unbalanced_push_pop rs"
  by (simp add: Pop_def)

lemma stack_Push: "stack (Push rs) = stack rs @ [stack_back rs]"
  by (simp add: Push_def stack_back_def)

lemma Push_sel [simp]:
  "calls (Push rs) = calls rs"
  "errors (Push rs) = errors rs"
  "supports_stencil (Push rs) = supports_stencil rs"
  by (simp_all add: Push_def)

lemma length_stack_step: "stack rs \<noteq> [] \<Longrightarrow> stack (step env op rs) \<noteq> []"
proof (cases op)
  case Op_Pop
  assume ne: "stack rs \<noteq> []"
  show ?thesis
  proof (cases "2 \<le> length (stack rs)")
    case True
    then have "length (stack (Pop env rs)) = length (stack rs) - 1"
      by (simp add: stack_Pop)
    with True Op_Pop show ?thesis by auto
  next
    case False
    then show ?thesis using ne Op_Pop by (simp add: Pop_unbalanced)
  qed
next
  case Op_Push
  then show ?thesis by (simp add: stack_Push)
qed (simp_all flip: length_greater_0_conv)

lemma stack_run_nonempty: "stack rs \<noteq> [] \<Longrightarrow> stack (run ops rs) \<noteq> []"
proof (induction ops arbitrary: rs)
  case Nil
  then show ?case by simp
next
  case (Cons eo ops)
  obtain env op where eo: "eo = (env, op)" by (cases eo)
  from Cons.prems have "stack (step env op rs) \<noteq> []" by (rule length_stack_step)
  then show ?case using Cons.IH eo by simp
qed

section \<open>What each mutator does to the top State and to the backend\<close>

lemma calls_SetTransform:
  "calls (SetTransform env p rs) = calls rs @
     (if transform_pointer (stack_back rs) \<noteq> p \<and>
         (transform_pointer (stack_back rs) = None \<or> p = None
          \<or> matrix_ne env (transform (stack_back rs)) (deref env (the p)))
      then [RI_SetTransform p] else [])"
  by (cases p; cases "transform_pointer (stack_back rs)")
     (simp_all add: SetTransform_def Let_def)

lemma stack_back_SetTransform:
  assumes "stack rs \<noteq> []"
  shows "transform_pointer (stack_back (SetTransform env p rs)) = p"
    and "scissor_origin (stack_back (SetTransform env p rs)) = scissor_origin (stack_back rs)"
    and "scissor_dimensions (stack_back (SetTransform env p rs)) = scissor_dimensions (stack_back rs)"
    and "clip_stencil_elements (stack_back (SetTransform env p rs)) = clip_stencil_elements (stack_back rs)"
  using assms
  by (cases p; cases "transform_pointer (stack_back rs)"; simp add: SetTransform_def Let_def)+

lemma stack_SetTransform_Nil [simp]: "stack (SetTransform env p rs) = [] \<longleftrightarrow> stack rs = []"
  using frame_SetTransform(1)[of env p rs] by (metis length_0_conv)

lemma EnableScissorRegion_calls:
  "calls (EnableScissorRegion origin dimensions rs) = calls rs
     @ (if 0 \<le> vx (scissor_dimensions (stack_back rs)) then [] else [RI_EnableScissorRegion True])
     @ (if 0 \<le> vx (scissor_dimensions (stack_back rs)) \<and> scissor_origin (stack_back rs) = origin
           \<and> scissor_dimensions (stack_back rs) = dimensions then []
        else [RI_SetScissorRegion (vx origin) (vy origin) (vx dimensions) (vy dimensions)])"
  by (auto simp add: EnableScissorRegion_def Let_def)

lemma stack_back_EnableScissorRegion:
  "stack rs \<noteq> [] \<Longrightarrow> stack_back (EnableScissorRegion origin dimensions rs)
     = (stack_back rs)\<lparr>scissor_origin := origin, scissor_dimensions := dimensions\<rparr>"
  by (auto simp add: EnableScissorRegion_def Let_def)

lemma EnableScissorRegion_cached:
  "0 \<le> vx dimensions \<Longrightarrow> 0 \<le> vy dimensions \<Longrightarrow> scissor_origin (stack_back rs) = origin \<Longrightarrow>
   scissor_dimensions (stack_back rs) = dimensions \<Longrightarrow> EnableScissorRegion origin dimensions rs = rs"
  by (simp add: EnableScissorRegion_def Let_def)

lemma stack_back_ApplyTransform:
  assumes "stack rs \<noteq> []"
  shows "transform_pointer (stack_back (ApplyTransform env (Some e) rs))
           = (case GetTransformState env e of None \<Rightarrow> None | Some ts \<Rightarrow> GetTransform env ts)"
    and "scissor_origin (stack_back (ApplyTransform env eo rs)) = scissor_origin (stack_back rs)"
    and "scissor_dimensions (stack_back (ApplyTransform env eo rs)) = scissor_dimensions (stack_back rs)"
    and "clip_stencil_elements (stack_back (ApplyTransform env eo rs)) = clip_stencil_elements (stack_back rs)"
  using assms by (simp_all add: ApplyTransform_def stack_back_SetTransform)

lemma stack_ApplyTransform_Nil [simp]: "stack (ApplyTransform env eo rs) = [] \<longleftrightarrow> stack rs = []"
  by (simp add: ApplyTransform_def)

lemma stack_back_ApplyClipMask_loop:
  assumes "stack rs \<noteq> []"
  shows "scissor_origin (stack_back (ApplyClipMask_loop env cs b rs)) = scissor_origin (stack_back rs)"
    and "scissor_dimensions (stack_back (ApplyClipMask_loop env cs b rs)) = scissor_dimensions (stack_back rs)"
    and "clip_stencil_elements (stack_back (ApplyClipMask_loop env cs b rs)) = clip_stencil_elements (stack_back rs)"
  using assms
  by (induction cs arbitrary: b rs; simp add: Let_def stack_back_ApplyTransform)+

lemma stack_ApplyClipMask_loop_Nil [simp]: "stack (ApplyClipMask_loop env cs b rs) = [] \<longleftrightarrow> stack rs = []"
  by (induction cs arbitrary: b rs) (simp_all add: Let_def)


lemma stack_back_ApplyClipMask:
  assumes "stack rs \<noteq> []"
  shows "transform_pointer (stack_back (ApplyClipMask env cs rs)) = transform_pointer (stack_back rs)"
    and "scissor_origin (stack_back (ApplyClipMask env cs rs)) = scissor_origin (stack_back rs)"
    and "scissor_dimensions (stack_back (ApplyClipMask env cs rs)) = scissor_dimensions (stack_back rs)"
    and "clip_stencil_elements (stack_back (ApplyClipMask env cs rs)) = clip_stencil_elements (stack_back rs)"
  using assms
  by (simp_all add: ApplyClipMask_def Let_def stack_back_SetTransform stack_back_ApplyClipMask_loop)

lemma stack_ApplyClipMask_Nil [simp]: "stack (ApplyClipMask env cs rs) = [] \<longleftrightarrow> stack rs = []"
  by (simp add: ApplyClipMask_def Let_def)

lemma stack_back_SetClipMask:
  assumes "stack rs \<noteq> []"
  shows "transform_pointer (stack_back (SetClipMask env cs rs)) = transform_pointer (stack_back rs)"
    and "scissor_origin (stack_back (SetClipMask env cs rs)) = scissor_origin (stack_back rs)"
    and "scissor_dimensions (stack_back (SetClipMask env cs rs)) = scissor_dimensions (stack_back rs)"
    and "clip_stencil_elements (stack_back (SetClipMask env cs rs)) = cs"
  using assms
  by (simp_all add: SetClipMask_def Let_def stack_back_ApplyClipMask)

lemma stack_SetClipMask_Nil [simp]: "stack (SetClipMask env cs rs) = [] \<longleftrightarrow> stack rs = []"
  by (simp add: SetClipMask_def Let_def)

lemma calls_ApplyTransform:
  "\<exists>xs. calls (ApplyTransform env eo rs) = calls rs @ xs \<and> list_all is_SetTransform xs"
  by (simp add: ApplyTransform_def calls_SetTransform)

lemma calls_ApplyClipMask_loop_False:
  "\<exists>xs. calls (ApplyClipMask_loop env cs False rs) = calls rs @ xs
      \<and> filter is_geometry xs
          = map (\<lambda>ec. Geometry_SetClipMask ClipIntersect (element ec) (clip_area ec)) cs
      \<and> list_all (\<lambda>c. is_geometry c \<or> is_SetTransform c) xs"
proof (induction cs arbitrary: rs)
  case Nil
  then show ?case by simp
next
  case (Cons ec cs)
  let ?rs1 = "ApplyTransform env (Some (element ec)) rs"
  let ?g = "Geometry_SetClipMask ClipIntersect (element ec) (clip_area ec)"
  obtain xs where xs: "calls ?rs1 = calls rs @ xs" "list_all is_SetTransform xs"
    using calls_ApplyTransform by blast
  obtain ys where ys: "calls (ApplyClipMask_loop env cs False (call ?g ?rs1)) = calls (call ?g ?rs1) @ ys"
    "filter is_geometry ys = map (\<lambda>ec. Geometry_SetClipMask ClipIntersect (element ec) (clip_area ec)) cs"
    "list_all (\<lambda>c. is_geometry c \<or> is_SetTransform c) ys"
    using Cons.IH by blast
  have nogeo: "filter is_geometry xs = []"
    using xs(2) by (induction xs) (auto elim: is_SetTransform.elims)
  have "calls (ApplyClipMask_loop env (ec # cs) False rs) = calls rs @ (xs @ ?g # ys)"
    by (simp add: Let_def ys(1) xs(1))
  moreover have "filter is_geometry (xs @ ?g # ys)
      = map (\<lambda>ec. Geometry_SetClipMask ClipIntersect (element ec) (clip_area ec)) (ec # cs)"
    by (simp add: nogeo ys(2))
  moreover have "list_all (\<lambda>c. is_geometry c \<or> is_SetTransform c) (xs @ ?g # ys)"
    using xs(2) ys(3) by (auto simp: list_all_iff)
  ultimately show ?case by blast
qed

lemma calls_ApplyClipMask_loop:
  "\<exists>xs. calls (ApplyClipMask_loop env (ec # cs) b rs) = calls rs @ xs
      \<and> filter is_geometry xs
          = Geometry_SetClipMask (if b then Clip else ClipIntersect) (element ec) (clip_area ec)
            # map (\<lambda>ec. Geometry_SetClipMask ClipIntersect (element ec) (clip_area ec)) cs
      \<and> list_all (\<lambda>c. is_geometry c \<or> is_SetTransform c) xs"
proof -
  let ?rs1 = "ApplyTransform env (Some (element ec)) rs"
  let ?g = "Geometry_SetClipMask (if b then Clip else ClipIntersect) (element ec) (clip_area ec)"
  obtain xs where xs: "calls ?rs1 = calls rs @ xs" "list_all is_SetTransform xs"
    using calls_ApplyTransform by blast
  obtain ys where ys: "calls (ApplyClipMask_loop env cs False (call ?g ?rs1)) = calls (call ?g ?rs1) @ ys"
    "filter is_geometry ys = map (\<lambda>ec. Geometry_SetClipMask ClipIntersect (element ec) (clip_area ec)) cs"
    "list_all (\<lambda>c. is_geometry c \<or> is_SetTransform c) ys"
    using calls_ApplyClipMask_loop_False by blast
  have nogeo: "filter is_geometry xs = []"
    using xs(2) by (induction xs) (auto elim: is_SetTransform.elims)
  have "calls (ApplyClipMask_loop env (ec # cs) b rs) = calls rs @ (xs @ ?g # ys)"
    by (simp add: Let_def ys(1) xs(1))
  moreover have "filter is_geometry (xs @ ?g # ys)
      = ?g # map (\<lambda>ec. Geometry_SetClipMask ClipIntersect (element ec) (clip_area ec)) cs"
    by (simp add: nogeo ys(2))
  moreover have "list_all (\<lambda>c. is_geometry c \<or> is_SetTransform c) (xs @ ?g # ys)"
    using xs(2) ys(3) by (auto simp: list_all_iff)
  ultimately show ?thesis by blast
qed

lemma calls_ApplyClipMask_Cons:
  "\<exists>xs. calls (ApplyClipMask env (ec # cs) rs) = calls rs @ RI_EnableClipMask True # xs
      \<and> filter is_geometry xs
          = Geometry_SetClipMask Clip (element ec) (clip_area ec)
            # map (\<lambda>ec. Geometry_SetClipMask ClipIntersect (element ec) (clip_area ec)) cs
      \<and> list_all (\<lambda>c. is_geometry c \<or> is_SetTransform c) xs"
proof -
  let ?rs1 = "call (RI_EnableClipMask True) rs"
  let ?rs2 = "ApplyClipMask_loop env (ec # cs) True ?rs1"
  obtain xs where xs: "calls ?rs2 = calls ?rs1 @ xs"
    "filter is_geometry xs
          = Geometry_SetClipMask Clip (element ec) (clip_area ec)
            # map (\<lambda>ec. Geometry_SetClipMask ClipIntersect (element ec) (clip_area ec)) cs"
    "list_all (\<lambda>c. is_geometry c \<or> is_SetTransform c) xs"
    using calls_ApplyClipMask_loop[of env ec cs True ?rs1] by auto
  let ?p = "transform_pointer (stack_back ?rs1)"
  obtain ys where ys: "calls (SetTransform env ?p ?rs2) = calls ?rs2 @ ys" "ys = [] \<or> ys = [RI_SetTransform ?p]"
    by (simp add: calls_SetTransform)
  have "calls (ApplyClipMask env (ec # cs) rs) = calls rs @ RI_EnableClipMask True # (xs @ ys)"
    using ys(1) xs(1) by (simp add: ApplyClipMask_def Let_def)
  moreover have "filter is_geometry (xs @ ys) = Geometry_SetClipMask Clip (element ec) (clip_area ec)
            # map (\<lambda>ec. Geometry_SetClipMask ClipIntersect (element ec) (clip_area ec)) cs"
    using ys(2) xs(2) by auto
  moreover have "list_all (\<lambda>c. is_geometry c \<or> is_SetTransform c) (xs @ ys)"
    using ys(2) xs(3) by auto
  ultimately show ?thesis by blast
qed

lemma ApplyClipMask_Nil: "ApplyClipMask env [] rs = call (RI_EnableClipMask False) rs"
  by (simp add: ApplyClipMask_def)

lemma issuedI: "calls rs' = calls rs @ xs \<Longrightarrow> issued rs rs' = xs"
  by (simp add: issued_def)

lemma calls_ApplyClipMask:
  "\<exists>xs. calls (ApplyClipMask env cs rs) = calls rs @ RI_EnableClipMask (cs \<noteq> []) # xs
        \<and> list_all (\<lambda>c. is_geometry c \<or> is_SetTransform c) xs"
proof (cases cs)
  case Nil
  then show ?thesis by (simp add: ApplyClipMask_Nil)
next
  case (Cons ec cs')
  then show ?thesis using calls_ApplyClipMask_Cons[of env ec cs' rs] by auto
qed

lemma calls_SetClipMask:
  "\<exists>xs. calls (SetClipMask env cs rs) = calls rs @ xs
        \<and> list_all (\<lambda>c. is_EnableClipMask c \<or> is_geometry c \<or> is_SetTransform c) xs"
proof (cases "clip_stencil_elements (stack_back rs) = cs")
  case True
  then show ?thesis by (simp add: SetClipMask_def)
next
  case False
  let ?rs1 = "set_stack_back ((stack_back rs)\<lparr>clip_stencil_elements := cs\<rparr>) rs"
  obtain xs where xs: "calls (ApplyClipMask env (clip_stencil_elements (stack_back ?rs1)) ?rs1)
      = calls ?rs1 @ RI_EnableClipMask (clip_stencil_elements (stack_back ?rs1) \<noteq> []) # xs"
      "list_all (\<lambda>c. is_geometry c \<or> is_SetTransform c) xs"
    using calls_ApplyClipMask by blast
  have "list_all (\<lambda>c. is_EnableClipMask c \<or> is_geometry c \<or> is_SetTransform c)
          (RI_EnableClipMask (clip_stencil_elements (stack_back ?rs1) \<noteq> []) # xs)"
    using xs(2) by (auto simp: list_all_iff)
  with xs(1) False show ?thesis
    by (simp add: SetClipMask_def Let_def)
qed

lemma calls_DisableScissorRegion:
  "calls (DisableScissorRegion rs) = calls rs
     @ (if 0 \<le> vx (scissor_dimensions (stack_back rs)) then [RI_EnableScissorRegion False] else [])"
  by (simp add: DisableScissorRegion_def Let_def)

lemma stack_back_DisableScissorRegion:
  "stack rs \<noteq> [] \<Longrightarrow> stack_back (DisableScissorRegion rs)
     = (if 0 \<le> vx (scissor_dimensions (stack_back rs))
        then (stack_back rs)\<lparr>scissor_dimensions := Vector2i (- 1) (- 1)\<rparr> else stack_back rs)"
  by (simp add: DisableScissorRegion_def Let_def)

lemma stack_scissor_Nil [simp]:
  "stack (DisableScissorRegion rs) = [] \<longleftrightarrow> stack rs = []"
  "stack (EnableScissorRegion origin dimensions rs) = [] \<longleftrightarrow> stack rs = []"
  by (simp_all add: DisableScissorRegion_def EnableScissorRegion_def Let_def)

lemma EnableClipMask_result_unused_SetTransform:
  "SetTransform (env\<lparr>EnableClipMask_result := f\<rparr>) p rs = SetTransform env p rs"
  by (simp add: SetTransform_def Let_def cong: option.case_cong)

lemma EnableClipMask_result_unused:
  "ApplyTransform (env\<lparr>EnableClipMask_result := f\<rparr>) eo rs = ApplyTransform env eo rs"
  by (simp add: ApplyTransform_def Let_def EnableClipMask_result_unused_SetTransform
      cong: option.case_cong)

lemma EnableClipMask_result_unused_loop:
  "ApplyClipMask_loop (env\<lparr>EnableClipMask_result := f\<rparr>) cs b rs = ApplyClipMask_loop env cs b rs"
  by (induction cs arbitrary: b rs) (simp_all add: Let_def EnableClipMask_result_unused)

lemma supports_stencil_Pop: "supports_stencil (Pop env rs) = supports_stencil rs"
  by (simp add: Pop_def Let_def)

lemma supports_stencil_BeginRender:
  "supports_stencil (BeginRender env rs) = EnableClipMask_result env False"
  by (simp add: BeginRender_def Let_def call_def)

section \<open>Balanced Push and Pop\<close>








section \<open>The claims\<close>



text \<open>
  C2. On a non-empty chain \<^verbatim>\<open>ApplyClipMask\<close> first calls \<^verbatim>\<open>EnableClipMask(true)\<close>, and
  the geometry calls it makes are one per chain element, in chain order, the first with mode
  \<open>Clip\<close> and every later one with \<open>ClipIntersect\<close>; its other calls set the transform.
  On the empty chain its only backend call is \<^verbatim>\<open>EnableClipMask(false)\<close>.
\<close>

theorem ApplyClipMask_geometry:
  "(clip_elements \<noteq> [] \<longrightarrow>
      calls (ApplyClipMask env clip_elements rs)
        = calls rs @ issued rs (ApplyClipMask env clip_elements rs)
      \<and> take 1 (issued rs (ApplyClipMask env clip_elements rs)) = [RI_EnableClipMask True]
      \<and> filter is_geometry (issued rs (ApplyClipMask env clip_elements rs))
          = Geometry_SetClipMask Clip (element (hd clip_elements)) (clip_area (hd clip_elements))
            # map (\<lambda>ec. Geometry_SetClipMask ClipIntersect (element ec) (clip_area ec))
                (tl clip_elements)
      \<and> list_all (\<lambda>c. is_geometry c \<or> is_SetTransform c)
           (drop 1 (issued rs (ApplyClipMask env clip_elements rs))))
   \<and> ApplyClipMask env [] rs = call (RI_EnableClipMask False) rs
   \<and> issued rs (ApplyClipMask env [] rs) = [RI_EnableClipMask False]
   \<and> stack (ApplyClipMask env [] rs) = stack rs"
proof (intro conjI impI)
  assume ne: "clip_elements \<noteq> []"
  then obtain ec cs where cs: "clip_elements = ec # cs" by (cases clip_elements) auto
  obtain xs where xs: "calls (ApplyClipMask env (ec # cs) rs) = calls rs @ RI_EnableClipMask True # xs"
      "filter is_geometry xs
          = Geometry_SetClipMask Clip (element ec) (clip_area ec)
            # map (\<lambda>ec. Geometry_SetClipMask ClipIntersect (element ec) (clip_area ec)) cs"
      "list_all (\<lambda>c. is_geometry c \<or> is_SetTransform c) xs"
    using calls_ApplyClipMask_Cons by blast
  have iss: "issued rs (ApplyClipMask env clip_elements rs) = RI_EnableClipMask True # xs"
    using xs(1) cs by (simp add: issuedI)
  show "calls (ApplyClipMask env clip_elements rs)
        = calls rs @ issued rs (ApplyClipMask env clip_elements rs)"
    using xs(1) cs by (simp add: issued_def)
  show "take 1 (issued rs (ApplyClipMask env clip_elements rs)) = [RI_EnableClipMask True]"
    by (simp add: iss)
  show "filter is_geometry (issued rs (ApplyClipMask env clip_elements rs))
          = Geometry_SetClipMask Clip (element (hd clip_elements)) (clip_area (hd clip_elements))
            # map (\<lambda>ec. Geometry_SetClipMask ClipIntersect (element ec) (clip_area ec))
                (tl clip_elements)"
    unfolding iss by (simp add: xs(2) cs)
  show "list_all (\<lambda>c. is_geometry c \<or> is_SetTransform c)
           (drop 1 (issued rs (ApplyClipMask env clip_elements rs)))"
    by (simp add: iss xs(3))
qed (simp_all add: ApplyClipMask_Nil issued_def)

theorem ApplyClipMask_geometry_witness:
  "example_chain \<noteq> []
   \<and> issued (SetTransform example_Env (Some 1) example_RenderState)
        (ApplyClipMask example_Env example_chain (SetTransform example_Env (Some 1) example_RenderState))
      = [RI_EnableClipMask True,
         RI_SetTransform (Some 2), Geometry_SetClipMask Clip 2 BORDER,
         RI_SetTransform None, Geometry_SetClipMask ClipIntersect 0 PADDING,
         RI_SetTransform (Some 3), Geometry_SetClipMask ClipIntersect 3 CONTENT,
         RI_SetTransform (Some 1)]
   \<and> filter is_geometry (issued (SetTransform example_Env (Some 1) example_RenderState)
        (ApplyClipMask example_Env example_chain (SetTransform example_Env (Some 1) example_RenderState)))
      = [Geometry_SetClipMask Clip 2 BORDER, Geometry_SetClipMask ClipIntersect 0 PADDING,
         Geometry_SetClipMask ClipIntersect 3 CONTENT]"
proof -
  have "example_chain \<noteq> []"
    and "issued (SetTransform example_Env (Some 1) example_RenderState)
        (ApplyClipMask example_Env example_chain (SetTransform example_Env (Some 1) example_RenderState))
      = [RI_EnableClipMask True,
         RI_SetTransform (Some 2), Geometry_SetClipMask Clip 2 BORDER,
         RI_SetTransform None, Geometry_SetClipMask ClipIntersect 0 PADDING,
         RI_SetTransform (Some 3), Geometry_SetClipMask ClipIntersect 3 CONTENT,
         RI_SetTransform (Some 1)]"
    by code_simp+
  then show ?thesis
    using ApplyClipMask_geometry[where clip_elements = example_chain and env = example_Env
      and rs = "SetTransform example_Env (Some 1) example_RenderState"]
    by (simp add: example_chain_def)
qed

text \<open>
  C3. \<^verbatim>\<open>SetTransform(p)\<close> calls the backend's \<^verbatim>\<open>SetTransform\<close> exactly when \<open>p\<close>
  differs from the cached pointer and the cached pointer is null, or \<open>p\<close> is null, or the
  cached matrix compares unequal to the matrix \<open>p\<close> points to; it makes no other backend
  call. So \<^verbatim>\<open>SetTransform(nullptr)\<close> after \<^verbatim>\<open>SetTransform(a)\<close> with \<open>a\<close> not null
  always calls the backend, and a different non-null pointer whose matrix compares equal to the
  cached one makes no call.
\<close>

theorem SetTransform_backend_iff:
  "(calls (SetTransform env p rs) = calls rs @ [RI_SetTransform p] \<longleftrightarrow>
      transform_pointer (stack_back rs) \<noteq> p \<and>
      (transform_pointer (stack_back rs) = None \<or> p = None
       \<or> (\<exists>a. p = Some a \<and> matrix_ne env (transform (stack_back rs)) (deref env a))))
   \<and> (calls (SetTransform env p rs) = calls rs
        \<or> calls (SetTransform env p rs) = calls rs @ [RI_SetTransform p])
   \<and> (stack rs \<noteq> [] \<longrightarrow>
        calls (SetTransform env None (SetTransform env (Some a) rs))
          = calls (SetTransform env (Some a) rs) @ [RI_SetTransform None])
   \<and> (transform_pointer (stack_back rs) = Some a \<and> b \<noteq> a
        \<and> \<not> matrix_ne env (transform (stack_back rs)) (deref env b) \<longrightarrow>
        calls (SetTransform env (Some b) rs) = calls rs)
   \<and> (stack rs \<noteq> [] \<and> transform_pointer (stack_back rs) = None \<and> b \<noteq> a
        \<and> \<not> matrix_ne env (deref env a) (deref env b) \<longrightarrow>
        calls (SetTransform env (Some b) (SetTransform env (Some a) rs))
          = calls rs @ [RI_SetTransform (Some a)])"
proof (intro conjI impI)
  show "calls (SetTransform env p rs) = calls rs @ [RI_SetTransform p] \<longleftrightarrow>
      transform_pointer (stack_back rs) \<noteq> p \<and>
      (transform_pointer (stack_back rs) = None \<or> p = None
       \<or> (\<exists>a. p = Some a \<and> matrix_ne env (transform (stack_back rs)) (deref env a)))"
    by (cases p) (simp_all add: calls_SetTransform)
  show "calls (SetTransform env p rs) = calls rs
        \<or> calls (SetTransform env p rs) = calls rs @ [RI_SetTransform p]"
    by (simp add: calls_SetTransform)
next
  assume ne: "stack rs \<noteq> []"
  then have "transform_pointer (stack_back (SetTransform env (Some a) rs)) = Some a"
    by (rule stack_back_SetTransform)
  then show "calls (SetTransform env None (SetTransform env (Some a) rs))
          = calls (SetTransform env (Some a) rs) @ [RI_SetTransform None]"
    by (simp add: calls_SetTransform[of env None])
next
  assume "transform_pointer (stack_back rs) = Some a \<and> b \<noteq> a
        \<and> \<not> matrix_ne env (transform (stack_back rs)) (deref env b)"
  then show "calls (SetTransform env (Some b) rs) = calls rs"
    by (simp add: calls_SetTransform)
next
  assume h: "stack rs \<noteq> [] \<and> transform_pointer (stack_back rs) = None \<and> b \<noteq> a
        \<and> \<not> matrix_ne env (deref env a) (deref env b)"
  then have 1: "calls (SetTransform env (Some a) rs) = calls rs @ [RI_SetTransform (Some a)]"
    by (simp add: calls_SetTransform)
  from h have 2: "stack_back (SetTransform env (Some a) rs)
      = (stack_back rs)\<lparr>transform := deref env a, transform_pointer := Some a\<rparr>"
    by (simp add: SetTransform_def Let_def)
  show "calls (SetTransform env (Some b) (SetTransform env (Some a) rs))
          = calls rs @ [RI_SetTransform (Some a)]"
    using h by (simp add: calls_SetTransform[of env "Some b"] 1 2)
qed

theorem SetTransform_backend_iff_witness:
  "stack example_RenderState \<noteq> []
   \<and> transform_pointer (stack_back example_RenderState) = None \<and> (2::nat) \<noteq> 1
   \<and> calls (SetTransform example_Env (Some 1) example_RenderState) = [RI_SetTransform (Some 1)]
   \<and> calls (SetTransform example_Env None (SetTransform example_Env (Some 1) example_RenderState))
        = [RI_SetTransform (Some 1), RI_SetTransform None]
   \<and> transform_pointer (stack_back (SetTransform example_Env (Some 1) example_RenderState)) = Some 1
   \<and> \<not> matrix_ne (example_Env\<lparr>deref := (\<lambda>a. 7)\<rparr>)
          (transform (stack_back (SetTransform (example_Env\<lparr>deref := (\<lambda>a. 7)\<rparr>) (Some 1) example_RenderState)))
          (deref (example_Env\<lparr>deref := (\<lambda>a. 7)\<rparr>) 2)
   \<and> calls (SetTransform (example_Env\<lparr>deref := (\<lambda>a. 7)\<rparr>) (Some 2)
         (SetTransform (example_Env\<lparr>deref := (\<lambda>a. 7)\<rparr>) (Some 1) example_RenderState))
        = [RI_SetTransform (Some 1)]"
  using SetTransform_backend_iff[where rs = example_RenderState and env = example_Env
      and p = "Some 1" and a = 1 and b = 2]
    SetTransform_backend_iff[where rs = "SetTransform (example_Env\<lparr>deref := (\<lambda>a. 7)\<rparr>) (Some 1) example_RenderState"
      and env = "example_Env\<lparr>deref := (\<lambda>a. 7)\<rparr>"
      and p = "Some 2" and a = 1 and b = 2]
    SetTransform_backend_iff[where rs = example_RenderState and env = "example_Env\<lparr>deref := (\<lambda>a. 7)\<rparr>"
      and p = "Some 2" and a = 1 and b = 2]
  by (simp add: example_RenderState_def RenderState_new_def example_Env_def example_State_def SetTransform_def stack_back_def set_stack_back_def call_def Let_def)



text \<open>
  C5. \<^verbatim>\<open>Pop\<close> on a stack of depth 1 raises the unbalanced push/pop error, makes no
  backend call and leaves the stack as it is. No sequence of calls, started on a non-empty
  stack or on a newly constructed object, makes the depth drop below 1.
\<close>

theorem Pop_underflow:
  "(length (stack rs) = 1 \<longrightarrow>
      stack (Pop env rs) = stack rs \<and> calls (Pop env rs) = calls rs
      \<and> supports_stencil (Pop env rs) = supports_stencil rs
      \<and> errors (Pop env rs) = errors rs @ [Error_unbalanced_push_pop])
   \<and> (stack rs \<noteq> [] \<longrightarrow> 1 \<le> length (stack (run ops rs)))
   \<and> 1 \<le> length (stack (run ops (RenderState_new env b)))"
proof -
  have "stack (RenderState_new env b) \<noteq> []" by (simp add: RenderState_new_def)
  then have "stack (run ops (RenderState_new env b)) \<noteq> []" by (rule stack_run_nonempty)
  moreover have "stack rs \<noteq> [] \<longrightarrow> stack (run ops rs) \<noteq> []" by (simp add: stack_run_nonempty)
  ultimately show ?thesis
    by (simp add: Pop_unbalanced Suc_le_eq)
qed

theorem Pop_underflow_witness:
  "length (stack example_RenderState) = 1
   \<and> stack (Pop example_Env example_RenderState) = [example_State]
   \<and> calls (Pop example_Env example_RenderState) = []
   \<and> errors (Pop example_Env example_RenderState) = [Error_unbalanced_push_pop]
   \<and> 1 \<le> length (stack (run [(example_Env, Op_Push), (example_Env, Op_Pop), (example_Env, Op_Pop)] example_RenderState))"
  using Pop_underflow[where rs = example_RenderState and env = example_Env and b = False
      and ops = "[(example_Env, Op_Push), (example_Env, Op_Pop), (example_Env, Op_Pop)]"]
  by (simp add: example_RenderState_def RenderState_new_def example_Env_def)

text \<open>
  C6, amended. For dimensions that are not negative, the second of two successive calls
  \<^verbatim>\<open>EnableScissorRegion(origin, dimensions)\<close> changes nothing and makes no backend call;
  the two calls together call \<^verbatim>\<open>SetScissorRegion\<close> once, unless the scissor was already
  enabled with that origin and those dimensions, when they do not call it at all. Afterwards
  the cached scissor is enabled with that origin and those dimensions.
\<close>

theorem EnableScissorRegion_twice:
  assumes "stack rs \<noteq> []" and "0 \<le> vx dimensions" and "0 \<le> vy dimensions"
  shows "EnableScissorRegion origin dimensions (EnableScissorRegion origin dimensions rs)
           = EnableScissorRegion origin dimensions rs
       \<and> length (filter is_SetScissorRegion
            (issued rs (EnableScissorRegion origin dimensions (EnableScissorRegion origin dimensions rs))))
           = (if 0 \<le> vx (scissor_dimensions (stack_back rs)) \<and> scissor_origin (stack_back rs) = origin
                 \<and> scissor_dimensions (stack_back rs) = dimensions then 0 else 1)
       \<and> scissor_origin (stack_back (EnableScissorRegion origin dimensions rs)) = origin
       \<and> scissor_dimensions (stack_back (EnableScissorRegion origin dimensions rs)) = dimensions
       \<and> 0 \<le> vx (scissor_dimensions (stack_back (EnableScissorRegion origin dimensions rs)))"
proof -
  let ?rs1 = "EnableScissorRegion origin dimensions rs"
  have top: "stack_back ?rs1 = (stack_back rs)\<lparr>scissor_origin := origin, scissor_dimensions := dimensions\<rparr>"
    using assms(1) by (rule stack_back_EnableScissorRegion)
  have second: "EnableScissorRegion origin dimensions ?rs1 = ?rs1"
    using assms(2,3) by (rule EnableScissorRegion_cached) (simp_all add: top)
  show ?thesis
    using assms(2) by (simp add: second top issued_def EnableScissorRegion_calls)
qed

theorem EnableScissorRegion_twice_witness:
  "stack example_RenderState \<noteq> [] \<and> 0 \<le> vx (Vector2i 10 10) \<and> 0 \<le> vy (Vector2i 10 10)
   \<and> issued example_RenderState
        (EnableScissorRegion (Vector2i 0 0) (Vector2i 10 10)
          (EnableScissorRegion (Vector2i 0 0) (Vector2i 10 10) example_RenderState))
      = [RI_EnableScissorRegion True, RI_SetScissorRegion 0 0 10 10]
   \<and> scissor_dimensions (stack_back (EnableScissorRegion (Vector2i 0 0) (Vector2i 10 10) example_RenderState))
      = Vector2i 10 10"
  using EnableScissorRegion_twice[of example_RenderState "Vector2i 10 10" "Vector2i 0 0"]
  by (simp add: example_RenderState_def RenderState_new_def example_Env_def example_State_def EnableScissorRegion_def stack_back_def set_stack_back_def call_def Let_def issued_def)

text \<open>
  C6 as first stated (exactly one \<^verbatim>\<open>SetScissorRegion\<close> call for every two successive
  calls) fails when the region is cached already: after one call with the region (0,0),
  (10,10), the next two calls with it make no \<^verbatim>\<open>SetScissorRegion\<close> call.
\<close>

theorem EnableScissorRegion_twice_already_cached:
  "0 \<le> vx (Vector2i 10 10) \<and> 0 \<le> vy (Vector2i 10 10)
   \<and> length (filter is_SetScissorRegion
        (issued (EnableScissorRegion (Vector2i 0 0) (Vector2i 10 10) example_RenderState)
           (EnableScissorRegion (Vector2i 0 0) (Vector2i 10 10)
             (EnableScissorRegion (Vector2i 0 0) (Vector2i 10 10)
               (EnableScissorRegion (Vector2i 0 0) (Vector2i 10 10) example_RenderState))))) = 0"
  by (simp add: example_RenderState_def RenderState_new_def example_Env_def example_State_def EnableScissorRegion_def stack_back_def set_stack_back_def call_def Let_def issued_def)

text \<open>
  C7. \<^verbatim>\<open>SetClipMask\<close> with the chain that is cached returns the object unchanged: no
  backend call, same top State. With a different chain it stores the chain and runs
  \<^verbatim>\<open>ApplyClipMask\<close>, whose first backend call is \<^verbatim>\<open>EnableClipMask\<close>. So a second
  \<^verbatim>\<open>SetClipMask\<close> with the same chain does nothing.
\<close>

theorem SetClipMask_unchanged_chain:
  "(clip_stencil_elements (stack_back rs) = clip_elements \<longrightarrow>
      SetClipMask env clip_elements rs = rs)
   \<and> (stack rs \<noteq> [] \<and> clip_stencil_elements (stack_back rs) \<noteq> clip_elements \<longrightarrow>
        SetClipMask env clip_elements rs
          = ApplyClipMask env clip_elements
              (set_stack_back ((stack_back rs)\<lparr>clip_stencil_elements := clip_elements\<rparr>) rs)
        \<and> take 1 (issued rs (SetClipMask env clip_elements rs))
            = [RI_EnableClipMask (clip_elements \<noteq> [])])
   \<and> (stack rs \<noteq> [] \<longrightarrow>
        SetClipMask env clip_elements (SetClipMask env clip_elements rs)
          = SetClipMask env clip_elements rs)"
proof (intro conjI impI)
  show "SetClipMask env clip_elements rs = rs"
    if "clip_stencil_elements (stack_back rs) = clip_elements"
    using that by (simp add: SetClipMask_def)
next
  assume h: "stack rs \<noteq> [] \<and> clip_stencil_elements (stack_back rs) \<noteq> clip_elements"
  let ?rs1 = "set_stack_back ((stack_back rs)\<lparr>clip_stencil_elements := clip_elements\<rparr>) rs"
  show eq: "SetClipMask env clip_elements rs = ApplyClipMask env clip_elements ?rs1"
    using h by (simp add: SetClipMask_def Let_def)
  obtain xs where "calls (ApplyClipMask env clip_elements ?rs1)
      = calls ?rs1 @ RI_EnableClipMask (clip_elements \<noteq> []) # xs"
    using calls_ApplyClipMask by blast
  then have "issued rs (SetClipMask env clip_elements rs) = RI_EnableClipMask (clip_elements \<noteq> []) # xs"
    by (simp add: eq issuedI)
  then show "take 1 (issued rs (SetClipMask env clip_elements rs))
            = [RI_EnableClipMask (clip_elements \<noteq> [])]"
    by simp
next
  assume "stack rs \<noteq> []"
  then have "clip_stencil_elements (stack_back (SetClipMask env clip_elements rs)) = clip_elements"
    by (rule stack_back_SetClipMask)
  then show "SetClipMask env clip_elements (SetClipMask env clip_elements rs)
          = SetClipMask env clip_elements rs"
    by (simp add: SetClipMask_def[of env clip_elements "SetClipMask env clip_elements rs"])
qed

theorem SetClipMask_unchanged_chain_witness:
  "stack example_RenderState \<noteq> []
   \<and> clip_stencil_elements (stack_back example_RenderState) \<noteq> example_chain
   \<and> take 1 (issued example_RenderState (SetClipMask example_Env example_chain example_RenderState))
        = [RI_EnableClipMask True]
   \<and> clip_stencil_elements (stack_back (SetClipMask example_Env example_chain example_RenderState))
        = example_chain
   \<and> SetClipMask example_Env example_chain (SetClipMask example_Env example_chain example_RenderState)
        = SetClipMask example_Env example_chain example_RenderState"
proof -
  have ev: "stack example_RenderState \<noteq> []"
    "clip_stencil_elements (stack_back example_RenderState) \<noteq> example_chain"
    "clip_stencil_elements (stack_back (SetClipMask example_Env example_chain example_RenderState))
        = example_chain"
    by code_simp+
  have ne: "(example_chain \<noteq> []) = True"
    by code_simp
  have "take 1 (issued example_RenderState (SetClipMask example_Env example_chain example_RenderState))
        = [RI_EnableClipMask (example_chain \<noteq> [])]"
    using ev(1,2) SetClipMask_unchanged_chain[where clip_elements = example_chain
        and env = example_Env and rs = example_RenderState]
    by blast
  then have first: "take 1 (issued example_RenderState
        (SetClipMask example_Env example_chain example_RenderState)) = [RI_EnableClipMask True]"
    by (simp only: ne)
  have again: "SetClipMask example_Env example_chain
        (SetClipMask example_Env example_chain example_RenderState)
        = SetClipMask example_Env example_chain example_RenderState"
    using ev(3) SetClipMask_unchanged_chain[where clip_elements = example_chain
        and env = example_Env and rs = "SetClipMask example_Env example_chain example_RenderState"]
    by blast
  show ?thesis
    using ev first again by blast
qed

text \<open>
  C8. \<^verbatim>\<open>Set\<close> is the scissor step (\<^verbatim>\<open>EnableScissorRegion\<close> when x of the target
  dimensions is not negative, \<^verbatim>\<open>DisableScissorRegion\<close> otherwise), then \<^verbatim>\<open>SetClipMask\<close>,
  then \<^verbatim>\<open>SetTransform\<close>; its backend calls are the scissor calls, then the clip-mask calls,
  then at most one \<^verbatim>\<open>SetTransform\<close> with the target's pointer. Afterwards the top State has
  the target's transform pointer, its clip chain and its scissor state.
\<close>

theorem Set_state_order:
  "(let rs1 = (if 0 \<le> vx (scissor_dimensions target)
               then EnableScissorRegion (scissor_origin target) (scissor_dimensions target) rs
               else DisableScissorRegion rs);
        rs2 = SetClipMask env (clip_stencil_elements target) rs1;
        rs3 = SetTransform env (transform_pointer target) rs2
    in Set_state env target rs = rs3
       \<and> calls rs3 = calls rs @ issued rs rs1 @ issued rs1 rs2 @ issued rs2 rs3
       \<and> list_all is_scissor (issued rs rs1)
       \<and> list_all (\<lambda>c. is_EnableClipMask c \<or> is_geometry c \<or> is_SetTransform c) (issued rs1 rs2)
       \<and> (issued rs2 rs3 = [] \<or> issued rs2 rs3 = [RI_SetTransform (transform_pointer target)]))
   \<and> (stack rs \<noteq> [] \<longrightarrow>
        transform_pointer (stack_back (Set_state env target rs)) = transform_pointer target
        \<and> clip_stencil_elements (stack_back (Set_state env target rs)) = clip_stencil_elements target
        \<and> (if 0 \<le> vx (scissor_dimensions target)
            then scissor_origin (stack_back (Set_state env target rs)) = scissor_origin target
               \<and> scissor_dimensions (stack_back (Set_state env target rs)) = scissor_dimensions target
            else vx (scissor_dimensions (stack_back (Set_state env target rs))) < 0))"
proof -
  define rs1 where "rs1 = (if 0 \<le> vx (scissor_dimensions target)
               then EnableScissorRegion (scissor_origin target) (scissor_dimensions target) rs
               else DisableScissorRegion rs)"
  define rs2 where "rs2 = SetClipMask env (clip_stencil_elements target) rs1"
  define rs3 where "rs3 = SetTransform env (transform_pointer target) rs2"
  have set: "Set_state env target rs = rs3"
    by (simp add: Set_state_def Let_def rs1_def rs2_def rs3_def)
  obtain A where A: "calls rs1 = calls rs @ A" "list_all is_scissor A"
    by (cases "0 \<le> vx (scissor_dimensions target)")
       (simp_all add: rs1_def EnableScissorRegion_calls calls_DisableScissorRegion)
  obtain B where B: "calls rs2 = calls rs1 @ B"
      "list_all (\<lambda>c. is_EnableClipMask c \<or> is_geometry c \<or> is_SetTransform c) B"
    unfolding rs2_def using calls_SetClipMask by blast
  obtain C where C: "calls rs3 = calls rs2 @ C" "C = [] \<or> C = [RI_SetTransform (transform_pointer target)]"
    unfolding rs3_def by (simp add: calls_SetTransform)
  have iA: "issued rs rs1 = A" using A(1) by (rule issuedI)
  have iB: "issued rs1 rs2 = B" using B(1) by (rule issuedI)
  have iC: "issued rs2 rs3 = C" using C(1) by (rule issuedI)
  have trace: "calls rs3 = calls rs @ issued rs rs1 @ issued rs1 rs2 @ issued rs2 rs3"
    by (simp add: iA iB iC A(1) B(1) C(1))
  have part1: "Set_state env target rs = rs3
       \<and> calls rs3 = calls rs @ issued rs rs1 @ issued rs1 rs2 @ issued rs2 rs3
       \<and> list_all is_scissor (issued rs rs1)
       \<and> list_all (\<lambda>c. is_EnableClipMask c \<or> is_geometry c \<or> is_SetTransform c) (issued rs1 rs2)
       \<and> (issued rs2 rs3 = [] \<or> issued rs2 rs3 = [RI_SetTransform (transform_pointer target)])"
    using set trace A(2) B(2) C(2) by (simp add: iA iB iC)
  have part2: "transform_pointer (stack_back rs3) = transform_pointer target
        \<and> clip_stencil_elements (stack_back rs3) = clip_stencil_elements target
        \<and> (if 0 \<le> vx (scissor_dimensions target)
            then scissor_origin (stack_back rs3) = scissor_origin target
               \<and> scissor_dimensions (stack_back rs3) = scissor_dimensions target
            else vx (scissor_dimensions (stack_back rs3)) < 0)" if ne: "stack rs \<noteq> []"
  proof -
    have ne1: "stack rs1 \<noteq> []" using ne by (simp add: rs1_def)
    then have ne2: "stack rs2 \<noteq> []" by (simp add: rs2_def)
    have sc: "if 0 \<le> vx (scissor_dimensions target)
            then scissor_origin (stack_back rs1) = scissor_origin target
               \<and> scissor_dimensions (stack_back rs1) = scissor_dimensions target
            else vx (scissor_dimensions (stack_back rs1)) < 0"
      using ne by (simp add: rs1_def stack_back_EnableScissorRegion stack_back_DisableScissorRegion)
    show ?thesis
      using sc by (simp add: rs3_def rs2_def stack_back_SetTransform[OF ne2[unfolded rs2_def]]
          stack_back_SetClipMask[OF ne1])
  qed
  show ?thesis
    using part1 part2 unfolding set Let_def rs1_def rs2_def rs3_def by blast
qed

theorem Set_state_order_witness:
  "stack example_RenderState \<noteq> [] \<and> 0 \<le> vx (scissor_dimensions example_next)
   \<and> calls (Set_state example_Env example_next example_RenderState)
      = [RI_EnableScissorRegion True, RI_SetScissorRegion 1 2 3 4,
         RI_EnableClipMask True,
         RI_SetTransform (Some 2), Geometry_SetClipMask Clip 2 BORDER,
         RI_SetTransform None, Geometry_SetClipMask ClipIntersect 0 PADDING,
         RI_SetTransform (Some 3), Geometry_SetClipMask ClipIntersect 3 CONTENT,
         RI_SetTransform None,
         RI_SetTransform (Some 5)]
   \<and> transform_pointer (stack_back (Set_state example_Env example_next example_RenderState)) = Some 5
   \<and> scissor_dimensions (stack_back (Set_state example_Env example_next example_RenderState)) = Vector2i 3 4"
proof -
  have "stack example_RenderState \<noteq> []"
    and "0 \<le> vx (scissor_dimensions example_next)"
    and "calls (Set_state example_Env example_next example_RenderState)
      = [RI_EnableScissorRegion True, RI_SetScissorRegion 1 2 3 4,
         RI_EnableClipMask True,
         RI_SetTransform (Some 2), Geometry_SetClipMask Clip 2 BORDER,
         RI_SetTransform None, Geometry_SetClipMask ClipIntersect 0 PADDING,
         RI_SetTransform (Some 3), Geometry_SetClipMask ClipIntersect 3 CONTENT,
         RI_SetTransform None,
         RI_SetTransform (Some 5)]"
    and "transform_pointer example_next = Some 5"
    and "scissor_dimensions example_next = Vector2i 3 4"
    by code_simp+
  then show ?thesis
    using Set_state_order[where env = example_Env and rs = example_RenderState and target = example_next]
    by simp
qed

text \<open>
  C9. With the scissor disabled (x of the cached dimensions negative)
  \<^verbatim>\<open>GetScissorState\<close> returns false and both output parameters keep the values they came
  in with; with the scissor enabled it returns true and the outputs are the cached origin and
  dimensions.
\<close>

theorem GetScissorState_outputs:
  "(vx (scissor_dimensions (stack_back rs)) < 0 \<longrightarrow>
      GetScissorState rs (out_origin, out_dimensions) = (False, out_origin, out_dimensions))
   \<and> (0 \<le> vx (scissor_dimensions (stack_back rs)) \<longrightarrow>
      GetScissorState rs (out_origin, out_dimensions)
        = (True, scissor_origin (stack_back rs), scissor_dimensions (stack_back rs)))"
  by (simp add: GetScissorState_def Let_def)

theorem GetScissorState_outputs_witness:
  "vx (scissor_dimensions (stack_back example_RenderState)) < 0
   \<and> GetScissorState example_RenderState (Vector2i 3 4, Vector2i 5 6) = (False, Vector2i 3 4, Vector2i 5 6)
   \<and> 0 \<le> vx (scissor_dimensions
        (stack_back (EnableScissorRegion (Vector2i 1 2) (Vector2i 7 8) example_RenderState)))
   \<and> GetScissorState (EnableScissorRegion (Vector2i 1 2) (Vector2i 7 8) example_RenderState)
        (Vector2i 3 4, Vector2i 5 6) = (True, Vector2i 1 2, Vector2i 7 8)"
  using GetScissorState_outputs[of example_RenderState "Vector2i 3 4" "Vector2i 5 6"]
    GetScissorState_outputs[of "EnableScissorRegion (Vector2i 1 2) (Vector2i 7 8) example_RenderState"
      "Vector2i 3 4" "Vector2i 5 6"]
  by (simp add: example_RenderState_def RenderState_new_def example_Env_def example_State_def EnableScissorRegion_def stack_back_def set_stack_back_def call_def Let_def)

text \<open>
  C10. The first backend call of every \<^verbatim>\<open>ApplyClipMask\<close> is \<^verbatim>\<open>EnableClipMask\<close>, also
  when \<^verbatim>\<open>SetClipMask\<close> replaces one chain by another. The value the backend returns there is
  not used: the result is the same whatever it is, and \<^verbatim>\<open>supports_stencil\<close> keeps its
  value. \<^verbatim>\<open>BeginRender\<close> stores the returned value, and no other operation changes
  \<^verbatim>\<open>supports_stencil\<close>.
\<close>

theorem ApplyClipMask_always_EnableClipMask:
  "calls (ApplyClipMask env clip_elements rs) = calls rs @ issued rs (ApplyClipMask env clip_elements rs)
   \<and> take 1 (issued rs (ApplyClipMask env clip_elements rs)) = [RI_EnableClipMask (clip_elements \<noteq> [])]
   \<and> (stack rs \<noteq> [] \<and> clip_stencil_elements (stack_back rs) \<noteq> clip_elements \<longrightarrow>
        take 1 (issued rs (SetClipMask env clip_elements rs)) = [RI_EnableClipMask (clip_elements \<noteq> [])])
   \<and> supports_stencil (ApplyClipMask env clip_elements rs) = supports_stencil rs
   \<and> ApplyClipMask (env\<lparr>EnableClipMask_result := f\<rparr>) clip_elements rs
        = ApplyClipMask env clip_elements rs
   \<and> supports_stencil (BeginRender env rs) = EnableClipMask_result env False
   \<and> (op \<noteq> Op_BeginRender \<longrightarrow> supports_stencil (step env op rs) = supports_stencil rs)"
proof (intro conjI impI)
  obtain xs where xs: "calls (ApplyClipMask env clip_elements rs)
      = calls rs @ RI_EnableClipMask (clip_elements \<noteq> []) # xs"
    using calls_ApplyClipMask by blast
  then show "calls (ApplyClipMask env clip_elements rs)
      = calls rs @ issued rs (ApplyClipMask env clip_elements rs)"
    by (simp add: issued_def)
  show "take 1 (issued rs (ApplyClipMask env clip_elements rs)) = [RI_EnableClipMask (clip_elements \<noteq> [])]"
    by (simp add: issuedI[OF xs])
next
  assume h: "stack rs \<noteq> [] \<and> clip_stencil_elements (stack_back rs) \<noteq> clip_elements"
  let ?rs1 = "set_stack_back ((stack_back rs)\<lparr>clip_stencil_elements := clip_elements\<rparr>) rs"
  have eq: "SetClipMask env clip_elements rs = ApplyClipMask env clip_elements ?rs1"
    using h by (simp add: SetClipMask_def Let_def)
  obtain xs where "calls (ApplyClipMask env clip_elements ?rs1)
      = calls ?rs1 @ RI_EnableClipMask (clip_elements \<noteq> []) # xs"
    using calls_ApplyClipMask by blast
  then have "issued rs (SetClipMask env clip_elements rs) = RI_EnableClipMask (clip_elements \<noteq> []) # xs"
    by (simp add: eq issuedI)
  then show "take 1 (issued rs (SetClipMask env clip_elements rs))
            = [RI_EnableClipMask (clip_elements \<noteq> [])]"
    by simp
next
  show "ApplyClipMask (env\<lparr>EnableClipMask_result := f\<rparr>) clip_elements rs
        = ApplyClipMask env clip_elements rs"
    by (simp add: ApplyClipMask_def Let_def EnableClipMask_result_unused_SetTransform
        EnableClipMask_result_unused_loop)
  show "supports_stencil (step env op rs) = supports_stencil rs" if "op \<noteq> Op_BeginRender"
    using that by (cases op) (simp_all add: supports_stencil_Pop)
qed (simp_all add: supports_stencil_BeginRender)

theorem ApplyClipMask_always_EnableClipMask_witness:
  "stack (SetClipMask example_Env example_chain example_RenderState) \<noteq> []
   \<and> clip_stencil_elements (stack_back (SetClipMask example_Env example_chain example_RenderState))
        \<noteq> tl example_chain
   \<and> tl example_chain \<noteq> []
   \<and> take 1 (issued (SetClipMask example_Env example_chain example_RenderState)
        (SetClipMask example_Env (tl example_chain)
           (SetClipMask example_Env example_chain example_RenderState)))
      = [RI_EnableClipMask True]
   \<and> (Op_SetClipMask example_chain :: nat operation) \<noteq> Op_BeginRender
   \<and> supports_stencil (step example_Env (Op_SetClipMask example_chain) example_RenderState) = False
   \<and> supports_stencil (BeginRender example_Env example_RenderState) = True"
proof -
  have "stack (SetClipMask example_Env example_chain example_RenderState) \<noteq> []"
    and "clip_stencil_elements (stack_back (SetClipMask example_Env example_chain example_RenderState))
        \<noteq> tl example_chain"
    and "tl example_chain \<noteq> []"
    and "supports_stencil example_RenderState = False"
    and "EnableClipMask_result example_Env False = True"
    by code_simp+
  then show ?thesis
    using ApplyClipMask_always_EnableClipMask[where clip_elements = "tl example_chain"
      and env = example_Env
      and rs = "SetClipMask example_Env example_chain example_RenderState"
      and op = "Op_SetClipMask example_chain"]
    ApplyClipMask_always_EnableClipMask[where clip_elements = "tl example_chain"
      and env = example_Env and rs = "example_RenderState"
      and op = "Op_SetClipMask example_chain"]
    by simp
qed

end
